theory Spec2Isabelle
  imports Main
begin

section \<open>JavaScript values\<close>

text \<open>
  The values the client handles: what \<^verbatim>\<open>JSON.parse\<close> and \<^verbatim>\<open>response.json()\<close> return,
  and the object literals the code builds from them. A string is a list of characters
  (code units below 256). The code only tests a number for truthiness, passes it through
  and prints it, so a number is kept as the text \<^verbatim>\<open>Number.prototype.toString\<close> gives for
  it (\<^verbatim>\<open>0\<close>, \<^verbatim>\<open>-5\<close>, \<^verbatim>\<open>0.5\<close>, \<^verbatim>\<open>1e+21\<close>); both zeros print as \<^verbatim>\<open>0\<close>. An object is a map
  from property names to values; the order of its properties is never observed by this
  code. No value is a function: every value here is parsed from JSON or built from
  parsed values by an object literal.
\<close>

datatype jsval =
    Undefined
  | Null
  | Bool bool
  | Num string
  | Str string
  | Arr "jsval list"
  | Obj "string \<Rightarrow> jsval option"

type_synonym object = "string \<Rightarrow> jsval option"

datatype js_error = Error string | TypeError string | SyntaxError string

fun message :: "js_error \<Rightarrow> string" where
  "message (Error m) = m"
| "message (TypeError m) = m"
| "message (SyntaxError m) = m"

text \<open>Truthiness, as \<^verbatim>\<open>if (x)\<close>, \<^verbatim>\<open>!!x\<close>, \<^verbatim>\<open>x || y\<close> and \<^verbatim>\<open>x && y\<close> test it.\<close>

fun truthy :: "jsval \<Rightarrow> bool" where
  "truthy Undefined = False"
| "truthy Null = False"
| "truthy (Bool b) = b"
| "truthy (Num n) = (n \<noteq> ''0'' \<and> n \<noteq> ''NaN'')"
| "truthy (Str s) = (s \<noteq> [])"
| "truthy (Arr xs) = True"
| "truthy (Obj m) = True"

definition or_js :: "jsval \<Rightarrow> jsval \<Rightarrow> jsval" where
  "or_js a b = (if truthy a then a else b)"

definition and_js :: "jsval \<Rightarrow> jsval \<Rightarrow> jsval" where
  "and_js a b = (if truthy a then b else a)"

text \<open>
  Decimal numerals, as a template literal prints a non-negative integer below
  \<open>10\<^sup>2\<^sup>1\<close>: an HTTP status, and \<^verbatim>\<open>Date.now()\<close>, which is below \<open>8.64 \<times> 10\<^sup>1\<^sup>5\<close>.
\<close>

definition digit :: "nat \<Rightarrow> char" where
  "digit d = (if d = 0 then CHR ''0'' else if d = 1 then CHR ''1'' else if d = 2 then CHR ''2''
     else if d = 3 then CHR ''3'' else if d = 4 then CHR ''4'' else if d = 5 then CHR ''5''
     else if d = 6 then CHR ''6'' else if d = 7 then CHR ''7'' else if d = 8 then CHR ''8''
     else CHR ''9'')"

fun show_nat :: "nat \<Rightarrow> string" where
  "show_nat n = (if n < 10 then [digit n] else show_nat (n div 10) @ [digit (n mod 10)])"

declare show_nat.simps [simp del]

text \<open>Sequencing of steps that may throw: the first error ends the run.\<close>

definition bind_js :: "js_error + 'a \<Rightarrow> ('a \<Rightarrow> js_error + 'b) \<Rightarrow> js_error + 'b" where
  "bind_js r f = (case r of Inl e \<Rightarrow> Inl e | Inr x \<Rightarrow> f x)"

text \<open>
  \<^verbatim>\<open>ToString\<close>: what a template literal \<^verbatim>\<open>${x}\<close>, \<^verbatim>\<open>new Error(x)\<close> and the assignment to
  \<^verbatim>\<open>link.download\<close> make of a value. An array prints its elements joined by commas,
  \<^verbatim>\<open>null\<close> and \<^verbatim>\<open>undefined\<close> elements as the empty string. An object is converted by
  its \<^verbatim>\<open>toString\<close> method: the inherited one prints \<^verbatim>\<open>[object Object]\<close>; an own
  property named \<^verbatim>\<open>toString\<close> hides it and, being no function, cannot be called, and the
  inherited \<^verbatim>\<open>valueOf\<close> (or an own one) yields no primitive either, so the conversion
  throws a TypeError.
\<close>

definition not_primitive :: js_error where
  "not_primitive = TypeError ''Cannot convert object to primitive value''"

fun to_string :: "jsval \<Rightarrow> js_error + string"
  and join_elems :: "jsval list \<Rightarrow> js_error + string" where
  "to_string Undefined = Inr ''undefined''"
| "to_string Null = Inr ''null''"
| "to_string (Bool b) = Inr (if b then ''true'' else ''false'')"
| "to_string (Num n) = Inr n"
| "to_string (Str s) = Inr s"
| "to_string (Arr xs) = join_elems xs"
| "to_string (Obj m) =
     (case m ''toString'' of None \<Rightarrow> Inr ''[object Object]'' | Some v \<Rightarrow> Inl not_primitive)"
| "join_elems [] = Inr []"
| "join_elems (x # xs) =
     bind_js (case x of Undefined \<Rightarrow> Inr [] | Null \<Rightarrow> Inr [] | _ \<Rightarrow> to_string x)
       (\<lambda>s. case xs of [] \<Rightarrow> Inr s
             | _ # _ \<Rightarrow> bind_js (join_elems xs) (\<lambda>t. Inr (s @ CHR '','' # t)))"

text \<open>
  The own enumerable properties of a value, which the spread \<^verbatim>\<open>{...x}\<close> copies: those of
  an object, the indexed elements of an array, the indexed characters of a string, and
  none for the other values.
\<close>

definition indexed :: "jsval list \<Rightarrow> object" where
  "indexed xs = map_of (zip (map show_nat [0 ..< length xs]) xs)"

fun own_props :: "jsval \<Rightarrow> object" where
  "own_props (Obj m) = m"
| "own_props (Arr xs) = indexed xs"
| "own_props (Str s) = indexed (map (\<lambda>c. Str [c]) s)"
| "own_props v = Map.empty"

text \<open>
  A property read \<^verbatim>\<open>x.k\<close>. On \<^verbatim>\<open>null\<close> and \<^verbatim>\<open>undefined\<close> it throws a TypeError;
  a property the value does not have reads as \<^verbatim>\<open>undefined\<close>. The names this program
  reads (name, email, id, provider, message, documentId, fileName, ...) are none of the
  inherited ones (length, toString, ...), so only own properties are looked up.
\<close>

definition null_read :: "string \<Rightarrow> string \<Rightarrow> js_error" where
  "null_read v k = TypeError (''Cannot read properties of '' @ v @ '' (reading '' @ [CHR 0x27] @ k @ [CHR 0x27] @ '')'')"

fun get :: "jsval \<Rightarrow> string \<Rightarrow> js_error + jsval" where
  "get Undefined k = Inl (null_read ''undefined'' k)"
| "get Null k = Inl (null_read ''null'' k)"
| "get v k = Inr (case own_props v k of None \<Rightarrow> Undefined | Some x \<Rightarrow> x)"

text \<open>A read on an object the code has just built, \<^verbatim>\<open>documentInfo.fileName\<close>.\<close>

definition field :: "object \<Rightarrow> string \<Rightarrow> jsval" where
  "field m k = (case m k of None \<Rightarrow> Undefined | Some x \<Rightarrow> x)"

text \<open>Optional chaining \<^verbatim>\<open>x?.k\<close>: \<^verbatim>\<open>undefined\<close> instead of the TypeError.\<close>

definition get_opt :: "jsval \<Rightarrow> string \<Rightarrow> jsval" where
  "get_opt v k = (case get v k of Inl e \<Rightarrow> Undefined | Inr x \<Rightarrow> x)"

section \<open>The network and the clock\<close>

text \<open>
  What a \<^verbatim>\<open>fetch\<close> settles with: a rejection (no response; a TypeError with the browser's
  message), or a response with a status and a body. \<^verbatim>\<open>response.json()\<close> rejects with a
  SyntaxError on a body that is not JSON and resolves with the parsed value otherwise.
\<close>

datatype body = Malformed string | Json jsval

datatype http = NetworkError string | Response nat body

definition ok :: "nat \<Rightarrow> bool" where
  "ok status = (200 \<le> status \<and> status \<le> 299)"

text \<open>
  The clock readings of one run of \<^verbatim>\<open>generateDocument\<close>: \<^verbatim>\<open>Date.now()\<close> and the two
  \<^verbatim>\<open>new Date().toISOString()\<close>, in the order the code takes them.
\<close>

record clock =
  Date_now :: nat
  fileName_iso :: string
  generatedAt_iso :: string

text \<open>
  The clock readings of one run of \<^verbatim>\<open>performDownload\<close>: the one of the report's text
  and the one of \<^verbatim>\<open>generateDocumentFilename\<close>, read only when that function is called.
\<close>

record download_clock =
  content_iso :: string
  filename_iso :: string

section \<open>services/api.js: generateDocument\<close>

record api_result =
  success :: bool
  data :: object

text \<open>The request \<^verbatim>\<open>generateDocument\<close> posts: \<^verbatim>\<open>{ script: sqlQuery, business: businessDomain }\<close>.\<close>

record generate_call =
  script :: string
  business :: string

definition generateDocument_fetch :: "string \<Rightarrow> string \<Rightarrow> generate_call" where
  "generateDocument_fetch sqlQuery businessDomain = \<lparr>script = sqlQuery, business = businessDomain\<rparr>"

text \<open>
  What \<^verbatim>\<open>generateDocument\<close> returns or throws once its fetch has settled. Its
  \<^verbatim>\<open>catch\<close> logs the error and throws it again, so the error is the result.
  \<^verbatim>\<open>new Error(x)\<close> converts its argument to a string, which may itself throw.
\<close>

definition generateDocument :: "string \<Rightarrow> string \<Rightarrow> http \<Rightarrow> clock \<Rightarrow> js_error + api_result" where
  "generateDocument sqlQuery businessDomain response clk =
     (case response of
        NetworkError m \<Rightarrow> Inl (TypeError m)
      | Response status b \<Rightarrow>
          if \<not> ok status then
            (let errorData = (case b of Malformed m \<Rightarrow> Null | Json v \<Rightarrow> v)
             in bind_js (to_string
                  (or_js (get_opt errorData ''message'')
                         (Str (''Server error: '' @ show_nat status))))
                  (\<lambda>msg. Inl (Error msg)))
          else
            (case b of
               Malformed m \<Rightarrow> Inl (SyntaxError m)
             | Json d \<Rightarrow>
                 (case get d ''documentId'' of
                    Inl e \<Rightarrow> Inl e
                  | Inr documentId \<Rightarrow>
                      Inr \<lparr>success = True,
                           data =
                             [''documentId'' \<mapsto> or_js documentId (Str (''DOC-'' @ show_nat (Date_now clk))),
                              ''fileName'' \<mapsto> or_js (get_opt d ''fileName'')
                                 (Str (businessDomain @ ''_analysis_'' @ take 10 (fileName_iso clk) @ ''.pdf'')),
                              ''fileSize'' \<mapsto> get_opt d ''fileSize'',
                              ''generatedAt'' \<mapsto> or_js (get_opt d ''generatedAt'') (Str (generatedAt_iso clk)),
                              ''downloadUrl'' \<mapsto> get_opt d ''downloadUrl'',
                              ''message'' \<mapsto> or_js (get_opt d ''message'') (Str ''Document generated successfully'')]
                             ++ own_props d\<rparr>)))"

section \<open>utils/helpers.js\<close>

record saved_file =
  content :: string
  filename :: string
  contentType :: string

text \<open>
  \<^verbatim>\<open>generateDocumentFilename(domain)\<close>: the timestamp is the clock's ISO string with every
  colon and dot replaced by a dash.
\<close>

definition generateDocumentFilename :: "jsval \<Rightarrow> string \<Rightarrow> js_error + string" where
  "generateDocumentFilename domain timestamp =
     bind_js (to_string domain) (\<lambda>domain_text.
       Inr (domain_text @ ''_analysis_''
            @ map (\<lambda>c. if c = CHR '':'' \<or> c = CHR ''.'' then CHR ''-'' else c) timestamp
            @ ''.doc''))"

text \<open>
  \<^verbatim>\<open>String.prototype.trim\<close> on the characters below 256: tab, line feed, vertical tab,
  form feed, carriage return, space and no-break space are removed at both ends.
\<close>

definition is_space :: "char \<Rightarrow> bool" where
  "is_space c = (c \<in> set [CHR 0x09, CHR 0x0A, CHR 0x0B, CHR 0x0C, CHR 0x0D, CHR 0x20, CHR 0xA0])"

definition trim :: "string \<Rightarrow> string" where
  "trim s = rev (dropWhile is_space (rev (dropWhile is_space s)))"

section \<open>components/home/HomePage.js: the generation request controller\<close>

text \<open>
  The six state variables of \<^verbatim>\<open>HomePage\<close>, and what the component does to the browser:
  \<open>fetches\<close> lists every generation call issued so far, \<open>pending\<close> the calls whose
  \<^verbatim>\<open>await\<close> has not settled yet, \<open>downloads\<close> the files handed to the browser by
  \<^verbatim>\<open>downloadFile\<close>.
\<close>

record home_world =
  sqlQuery :: string
  businessDomain :: string
  isLoading :: bool
  showSuccess :: bool
  error :: "string option"
  lastDocument :: "object option"
  fetches :: "generate_call list"
  pending :: "generate_call list"
  downloads :: "saved_file list"

definition HomePage_init :: home_world where
  "HomePage_init = \<lparr>sqlQuery = [], businessDomain = [], isLoading = False, showSuccess = False,
     error = None, lastDocument = None, fetches = [], pending = [], downloads = []\<rparr>"

text \<open>
  \<^verbatim>\<open>downloadFile(content, filename, contentType)\<close>: the assignment
  \<^verbatim>\<open>link.download = filename\<close> converts the name to a string, before the click.
\<close>

definition downloadFile :: "home_world \<Rightarrow> string \<Rightarrow> jsval \<Rightarrow> string \<Rightarrow> js_error + home_world" where
  "downloadFile w c name type =
     bind_js (to_string name) (\<lambda>name_text.
       Inr (w\<lparr>downloads := downloads w
              @ [\<lparr>content = c, filename = name_text, contentType = type\<rparr>]\<rparr>))"

definition nl :: string where
  "nl = [CHR 0x0A]"

text \<open>The template literal of \<^verbatim>\<open>performDownload\<close>; its substitutions are converted in order.\<close>

definition mockContent :: "object \<Rightarrow> string \<Rightarrow> js_error + string" where
  "mockContent documentInfo timestamp =
     bind_js (to_string (field documentInfo ''businessDomain'')) (\<lambda>domain_text.
     bind_js (to_string (field documentInfo ''documentId'')) (\<lambda>id_text.
     bind_js (to_string (field documentInfo ''sqlQuery'')) (\<lambda>query_text.
       Inr (nl @ ''AnalyzeAI ANALYSIS REPORT'' @ nl
            @ ''====================='' @ nl
            @ nl
            @ ''Business Domain: '' @ domain_text @ nl
            @ ''Generated: '' @ timestamp @ nl
            @ ''Document ID: '' @ id_text @ nl
            @ nl
            @ ''SQL Query Analysis:'' @ nl
            @ query_text @ nl
            @ nl
            @ ''[This is a mock document. In production, this would contain the actual analysis.]'' @ nl
            @ ''    ''))))"

text \<open>
  \<^verbatim>\<open>performDownload\<close>: the text is built first; the name is the document's
  \<^verbatim>\<open>fileName\<close> when that is truthy and a generated one otherwise; then the file is
  handed to \<^verbatim>\<open>downloadFile\<close>. Any of the three steps may throw.
\<close>

definition performDownload :: "home_world \<Rightarrow> object \<Rightarrow> download_clock \<Rightarrow> js_error + home_world" where
  "performDownload w documentInfo clk =
     bind_js (mockContent documentInfo (content_iso clk)) (\<lambda>text.
     bind_js (if truthy (field documentInfo ''fileName'')
              then Inr (field documentInfo ''fileName'')
              else bind_js (generateDocumentFilename (field documentInfo ''businessDomain'')
                              (filename_iso clk)) (\<lambda>name. Inr (Str name)))
       (\<lambda>name. downloadFile w text name ''text/plain''))"

text \<open>
  \<^verbatim>\<open>handleDownload({ sqlQuery, businessDomain })\<close> runs in two parts. Up to its
  \<^verbatim>\<open>await\<close> it sets the loading flag, clears the error and issues the generation call;
  the arguments are named \<open>query\<close> and \<open>domain\<close> here (in the source they shadow the
  state variables of the same names). When the call settles, the rest runs: the
  success branch, or the \<^verbatim>\<open>catch\<close>, and then the \<^verbatim>\<open>finally\<close>. The \<^verbatim>\<open>catch\<close> also
  takes what \<^verbatim>\<open>performDownload\<close> throws, after \<^verbatim>\<open>setLastDocument\<close> and before
  \<^verbatim>\<open>setShowSuccess\<close>.
\<close>

definition handleDownload_call :: "home_world \<Rightarrow> string \<Rightarrow> string \<Rightarrow> home_world" where
  "handleDownload_call w query domain =
     w\<lparr>isLoading := True, error := None,
       fetches := fetches w @ [generateDocument_fetch query domain],
       pending := pending w @ [generateDocument_fetch query domain]\<rparr>"

definition error_text :: "js_error \<Rightarrow> string" where
  "error_text err = (if message err \<noteq> [] then message err
                     else ''An error occurred while generating the document'')"

definition handleDownload_settle ::
  "home_world \<Rightarrow> string \<Rightarrow> string \<Rightarrow> http \<Rightarrow> clock \<Rightarrow> download_clock \<Rightarrow> home_world" where
  "handleDownload_settle w query domain response clk dclk =
     (let w1 = w\<lparr>pending := remove1 (generateDocument_fetch query domain) (pending w)\<rparr>
      in case generateDocument query domain response clk of
           Inr res \<Rightarrow>
             (if success res then
                (let documentInfo = [''sqlQuery'' \<mapsto> Str query, ''businessDomain'' \<mapsto> Str domain] ++ data res;
                     w2 = w1\<lparr>lastDocument := Some documentInfo\<rparr>
                 in case performDownload w2 documentInfo dclk of
                      Inr w3 \<Rightarrow> w3\<lparr>showSuccess := True, isLoading := False\<rparr>
                    | Inl err \<Rightarrow> w2\<lparr>error := Some (error_text err), isLoading := False\<rparr>)
              else w1\<lparr>isLoading := False\<rparr>)
         | Inl err \<Rightarrow> w1\<lparr>error := Some (error_text err), isLoading := False\<rparr>)"

text \<open>One whole run of \<^verbatim>\<open>handleDownload\<close>, with nothing else happening in between.\<close>

definition handleDownload ::
  "home_world \<Rightarrow> string \<Rightarrow> string \<Rightarrow> http \<Rightarrow> clock \<Rightarrow> download_clock \<Rightarrow> home_world" where
  "handleDownload w query domain response clk dclk =
     handleDownload_settle (handleDownload_call w query domain) query domain response clk dclk"

text \<open>
  \<^verbatim>\<open>handleRedownload\<close> has no \<^verbatim>\<open>try\<close>: what \<^verbatim>\<open>performDownload\<close> throws leaves the
  handler, and the state is what it was.
\<close>

definition handleRedownload :: "home_world \<Rightarrow> download_clock \<Rightarrow> js_error + home_world" where
  "handleRedownload w clk =
     (case lastDocument w of None \<Rightarrow> Inr w | Some documentInfo \<Rightarrow> performDownload w documentInfo clk)"

definition handleNewQuery :: "home_world \<Rightarrow> home_world" where
  "handleNewQuery w =
     w\<lparr>sqlQuery := [], businessDomain := [], showSuccess := False, lastDocument := None, error := None\<rparr>"

definition handleCloseError :: "home_world \<Rightarrow> home_world" where
  "handleCloseError w = w\<lparr>error := None\<rparr>"

text \<open>Redownload invoked once for each clock reading of a list, up to the first throw.\<close>

fun redownloads :: "home_world \<Rightarrow> download_clock list \<Rightarrow> js_error + home_world" where
  "redownloads w [] = Inr w"
| "redownloads w (c # cs) = bind_js (handleRedownload w c) (\<lambda>w1. redownloads w1 cs)"

section \<open>components/home: BusinessDomainSelect, QueryForm and what HomePage renders\<close>

definition businessDomains :: "(string \<times> string) list" where
  "businessDomains =
     [(''finance'', ''Finance''), (''healthcare'', ''Healthcare''), (''retail'', ''Retail''),
      (''technology'', ''Technology''), (''manufacturing'', ''Manufacturing''),
      (''education'', ''Education''), (''logistics'', ''Logistics''),
      (''marketing'', ''Marketing''), (''hr'', ''Human Resources''), (''sales'', ''Sales'')]"

text \<open>The values of the select's menu items: the empty "None" item and the ten domains.\<close>

definition menu_values :: "string list" where
  "menu_values = [] # map fst businessDomains"

definition isQueryEmpty :: "string \<Rightarrow> bool" where
  "isQueryEmpty query = (query = [] \<or> trim query = [])"

definition isFormValid :: "string \<Rightarrow> string \<Rightarrow> bool" where
  "isFormValid query domain = (\<not> isQueryEmpty query \<and> domain \<noteq> [])"

text \<open>
  \<^verbatim>\<open>QueryForm.handleDownload\<close>: the form's props are the state variables of
  \<^verbatim>\<open>HomePage\<close>, and \<^verbatim>\<open>onDownload\<close> is \<^verbatim>\<open>HomePage.handleDownload\<close>, which runs up to
  its \<^verbatim>\<open>await\<close>.
\<close>

definition QueryForm_handleDownload :: "home_world \<Rightarrow> home_world" where
  "QueryForm_handleDownload w =
     (if isFormValid (sqlQuery w) (businessDomain w)
      then handleDownload_call w (sqlQuery w) (businessDomain w)
      else w)"

datatype view = LoadingState | SuccessState | QueryForm

text \<open>The component \<^verbatim>\<open>HomePage\<close> shows: \<^verbatim>\<open>isLoading ? ... : showSuccess ? ... : ...\<close>.\<close>

definition render :: "home_world \<Rightarrow> view" where
  "render w = (if isLoading w then LoadingState else if showSuccess w then SuccessState else QueryForm)"

text \<open>
  The states the page reaches when it is driven through what it renders. The query
  field and the select exist only in the form, and the select is disabled while the
  query is empty; the download button exists only in the form; the two buttons of the
  success view call \<^verbatim>\<open>handleRedownload\<close> and \<^verbatim>\<open>handleNewQuery\<close>; the snackbar can be
  closed at any time; a pending call settles at any time, with any response.
\<close>

inductive shell :: "home_world \<Rightarrow> bool" where
  init: "shell HomePage_init"
| type_query: "shell w \<Longrightarrow> render w = QueryForm \<Longrightarrow> shell (w\<lparr>sqlQuery := s\<rparr>)"
| select_domain:
    "shell w \<Longrightarrow> render w = QueryForm \<Longrightarrow> \<not> isQueryEmpty (sqlQuery w) \<Longrightarrow> d \<in> set menu_values
     \<Longrightarrow> shell (w\<lparr>businessDomain := d\<rparr>)"
| click_download: "shell w \<Longrightarrow> render w = QueryForm \<Longrightarrow> shell (QueryForm_handleDownload w)"
| settle:
    "shell w \<Longrightarrow> c \<in> set (pending w)
     \<Longrightarrow> shell (handleDownload_settle w (script c) (business c) response clk dclk)"
| redownload: "shell w \<Longrightarrow> render w = SuccessState \<Longrightarrow> handleRedownload w dclk = Inr w' \<Longrightarrow> shell w'"
| new_query: "shell w \<Longrightarrow> render w = SuccessState \<Longrightarrow> shell (handleNewQuery w)"
| close_error: "shell w \<Longrightarrow> shell (handleCloseError w)"

section \<open>components/auth/AuthContext.js: the session store and the auth controller\<close>

text \<open>
  \<^verbatim>\<open>localStorage\<close> holds texts. A text is kept here by what \<^verbatim>\<open>JSON.parse\<close> makes of
  it: \<open>Text_json v\<close> is a text that parses to the value \<open>v\<close> (what \<^verbatim>\<open>JSON.stringify\<close>
  writes for \<open>v\<close>), \<open>Text_other s\<close> is the text \<open>s\<close> when it is no JSON text, the
  empty string among them. \<^verbatim>\<open>JSON.parse\<close> throws a SyntaxError on the second kind.
\<close>

datatype stored = Text_json jsval | Text_other string

definition JSON_parse :: "stored \<Rightarrow> js_error + jsval" where
  "JSON_parse t = (case t of Text_json v \<Rightarrow> Inr v
                   | Text_other s \<Rightarrow> Inl (SyntaxError (''Unexpected token in JSON: '' @ s)))"

text \<open>
  \<^verbatim>\<open>JSON.stringify\<close> of an object the code has built from a parsed response: a
  property whose value is \<^verbatim>\<open>undefined\<close> is not written, the others are written as
  they are.
\<close>

definition JSON_stringify :: "object \<Rightarrow> stored" where
  "JSON_stringify m = Text_json (Obj (\<lambda>k. case m k of Some Undefined \<Rightarrow> None | x \<Rightarrow> x))"

text \<open>
  The address of the page: \<^verbatim>\<open>window.location.pathname\<close>, the query string as the list
  of name and value pairs \<^verbatim>\<open>URLSearchParams\<close> reads from it, and the fragment.
\<close>

record location =
  pathname :: string
  search :: "(string \<times> string) list"
  fragment :: string

definition URLSearchParams_get :: "location \<Rightarrow> string \<Rightarrow> string option" where
  "URLSearchParams_get loc name = map_of (search loc) name"

datatype auth_call = Callback_call string "string option" | Status_call | Logout_call

text \<open>
  The two state variables of \<^verbatim>\<open>AuthProvider\<close> and the browser around it: the storage,
  the address, the number of documents loaded so far (a navigation or a reload loads
  one), the calls issued and the errors written to the console.
\<close>

record auth_world =
  user :: jsval
  loading :: bool
  localStorage :: "string \<Rightarrow> stored option"
  location :: location
  page_loads :: nat
  requests :: "auth_call list"
  console :: "js_error list"

definition isAuthenticated :: "auth_world \<Rightarrow> bool" where
  "isAuthenticated w = truthy (user w)"

definition console_error :: "js_error \<Rightarrow> auth_world \<Rightarrow> auth_world" where
  "console_error e w = w\<lparr>console := console w @ [e]\<rparr>"



text \<open>\<^verbatim>\<open>checkOAuthCallback\<close> up to its \<^verbatim>\<open>await fetch\<close>, and from there on.\<close>

definition checkOAuthCallback_call :: "auth_world \<Rightarrow> auth_world" where
  "checkOAuthCallback_call w =
     (case URLSearchParams_get (location w) ''code'' of
        None \<Rightarrow> w
      | Some code \<Rightarrow>
          if code = [] then w
          else w\<lparr>requests := requests w
                  @ [Callback_call code (URLSearchParams_get (location w) ''state'')]\<rparr>)"


text \<open>\<^verbatim>\<open>checkAuthStatus\<close> up to its \<^verbatim>\<open>await fetch\<close>, and from there on.\<close>

definition checkAuthStatus_call :: "auth_world \<Rightarrow> auth_world" where
  "checkAuthStatus_call w = w\<lparr>requests := requests w @ [Status_call]\<rparr>"

definition checkAuthStatus_settle :: "auth_world \<Rightarrow> http \<Rightarrow> auth_world" where
  "checkAuthStatus_settle w response =
     (case response of
        NetworkError m \<Rightarrow> console_error (TypeError m) w
      | Response status b \<Rightarrow>
          if ok status then
            (case b of
               Malformed m \<Rightarrow> console_error (SyntaxError m) w
             | Json d \<Rightarrow>
                 (case get d ''name'' of
                    Inl e \<Rightarrow> console_error e w
                  | Inr name \<Rightarrow>
                      if truthy (and_js name (get_opt d ''email'')) then
                        (let userData = [''name'' \<mapsto> name,
                                         ''email'' \<mapsto> get_opt d ''email'',
                                         ''id'' \<mapsto> or_js (get_opt d ''id'') (get_opt d ''email''),
                                         ''provider'' \<mapsto> or_js (get_opt d ''provider'') (Str ''oauth'')]
                         in w\<lparr>user := Obj userData,
                              localStorage := (localStorage w)(''user'' \<mapsto> JSON_stringify userData)\<rparr>)
                      else w))
          else if status = 401 then
            w\<lparr>user := Null, localStorage := (localStorage w)(''user'' := None)\<rparr>
          else w)
     \<lparr>loading := False\<rparr>"



text \<open>
  A document is loaded: the component starts with \<^verbatim>\<open>useState(null)\<close> and
  \<^verbatim>\<open>useState(true)\<close>; the storage is what it was.
\<close>

definition AuthProvider_init :: "location \<Rightarrow> (string \<Rightarrow> stored option) \<Rightarrow> auth_world" where
  "AuthProvider_init loc store =
     \<lparr>user = Null, loading = True, localStorage = store, location = loc, page_loads = 1,
      requests = [], console = []\<rparr>"


text \<open>
  The first lines of the effect: the stored snapshot, when there is one and it is not
  the empty string, is parsed and set. Nothing catches what \<^verbatim>\<open>JSON.parse\<close> throws.
\<close>

definition hydrate :: "auth_world \<Rightarrow> js_error + auth_world" where
  "hydrate w =
     (case localStorage w ''user'' of
        None \<Rightarrow> Inr w
      | Some storedUser \<Rightarrow>
          if storedUser = Text_other [] then Inr w
          else (case JSON_parse storedUser of
                  Inl e \<Rightarrow> Inl e
                | Inr v \<Rightarrow> Inr (w\<lparr>user := v\<rparr>)))"

text \<open>
  The effect of \<^verbatim>\<open>AuthProvider\<close>, up to the first \<^verbatim>\<open>await\<close> of each of the two calls it
  makes. An error thrown by the hydration ends the effect there.
\<close>

definition useEffect :: "auth_world \<Rightarrow> js_error + auth_world" where
  "useEffect w =
     (case hydrate w of
        Inl e \<Rightarrow> Inl e
      | Inr w1 \<Rightarrow> Inr (checkAuthStatus_call (checkOAuthCallback_call w1)))"






section \<open>Concrete runs\<close>

text \<open>
  The file one run of \<^verbatim>\<open>performDownload\<close> hands to the browser, or what the run throws.
\<close>

definition document_file :: "object \<Rightarrow> download_clock \<Rightarrow> js_error + saved_file" where
  "document_file documentInfo clk =
     bind_js (mockContent documentInfo (content_iso clk)) (\<lambda>text.
     bind_js (if truthy (field documentInfo ''fileName'')
              then Inr (field documentInfo ''fileName'')
              else bind_js (generateDocumentFilename (field documentInfo ''businessDomain'')
                              (filename_iso clk)) (\<lambda>name. Inr (Str name)))
       (\<lambda>name. bind_js (to_string name) (\<lambda>name_text.
          Inr \<lparr>content = text, filename = name_text, contentType = ''text/plain''\<rparr>)))"

text \<open>A generation call is valid when its query is not blank and its domain is one of the ten.\<close>

definition valid_call :: "generate_call \<Rightarrow> bool" where
  "valid_call c = (trim (script c) \<noteq> [] \<and> business c \<in> set (map fst businessDomains))"

text \<open>The form filled in, and the page while a submission is in flight.\<close>

definition typed_example :: home_world where
  "typed_example = HomePage_init\<lparr>sqlQuery := ''SELECT 1'', businessDomain := ''finance''\<rparr>"

definition submitting_example :: home_world where
  "submitting_example = handleDownload_call HomePage_init ''SELECT 1'' ''finance''"

text \<open>Responses, clock readings and the retail scenario run to its success state.\<close>

definition timeout_response :: http where
  "timeout_response = Response 500 (Json (Obj [''message'' \<mapsto> Str ''upstream timeout'']))"

definition example_clock :: clock where
  "example_clock = \<lparr>Date_now = 1704067200000, fileName_iso = ''2024-01-01T00:00:00.000Z'',
     generatedAt_iso = ''2024-01-01T00:00:00.001Z''\<rparr>"

definition example_download_clock :: download_clock where
  "example_download_clock = \<lparr>content_iso = ''2024-01-01T00:00:00.002Z'',
     filename_iso = ''2024-01-01T00:00:00.003Z''\<rparr>"

definition retail_response :: http where
  "retail_response = Response 200 (Json (Obj [''documentId'' \<mapsto> Str ''DOC-1'',
     ''fileName'' \<mapsto> Str ''retail_analysis_2024-01-01.pdf'', ''message'' \<mapsto> Str ''ok'']))"

definition retail_success :: home_world where
  "retail_success = handleDownload HomePage_init ''SELECT * FROM orders'' ''retail''
     retail_response example_clock example_download_clock"

text \<open>The document the retail scenario caches and the file it delivers.\<close>

definition retail_document :: object where
  "retail_document = [''sqlQuery'' \<mapsto> Str ''SELECT * FROM orders'', ''businessDomain'' \<mapsto> Str ''retail'']
     ++ data (projr (generateDocument ''SELECT * FROM orders'' ''retail'' retail_response example_clock))"

definition retail_file :: saved_file where
  "retail_file =
     \<lparr>content =
        nl @ ''AnalyzeAI ANALYSIS REPORT'' @ nl
        @ ''====================='' @ nl
        @ nl
        @ ''Business Domain: retail'' @ nl
        @ ''Generated: 2024-01-01T00:00:00.002Z'' @ nl
        @ ''Document ID: DOC-1'' @ nl
        @ nl
        @ ''SQL Query Analysis:'' @ nl
        @ ''SELECT * FROM orders'' @ nl
        @ nl
        @ ''[This is a mock document. In production, this would contain the actual analysis.]'' @ nl
        @ ''    '',
      filename = ''retail_analysis_2024-01-01.pdf'',
      contentType = ''text/plain''\<rparr>"

text \<open>A page loaded at the provider's callback address, Alice's identity, and her session.\<close>

definition callback_location :: location where
  "callback_location = \<lparr>pathname = ''/'', search = [(''code'', ''abc''), (''state'', ''xyz'')], fragment = []\<rparr>"

definition alice :: jsval where
  "alice = Obj [''name'' \<mapsto> Str ''Alice'', ''email'' \<mapsto> Str ''alice@example.com'']"

definition alice_identity :: object where
  "alice_identity = [''name'' \<mapsto> Str ''Alice'', ''email'' \<mapsto> Str ''alice@example.com'',
     ''id'' \<mapsto> Str ''alice@example.com'', ''provider'' \<mapsto> Str ''oauth'']"

definition logged_in_example :: auth_world where
  "logged_in_example = \<lparr>user = Obj alice_identity, loading = True,
     localStorage = [''user'' \<mapsto> Text_json (Obj alice_identity)],
     location = \<lparr>pathname = ''/'', search = [], fragment = []\<rparr>, page_loads = 1,
     requests = [Status_call], console = []\<rparr>"



section \<open>Properties of the generation request controller\<close>

lemma generateDocument_fetch_self [simp]:
  "generateDocument_fetch (script c) (business c) = c"
  by (simp add: generateDocument_fetch_def)

lemma bind_js_simps [simp]:
  "bind_js (Inl e) f = Inl e"
  "bind_js (Inr x) f = f x"
  by (simp_all add: bind_js_def)

lemma bind_js_Inr:
  "bind_js r f = Inr y \<longleftrightarrow> (\<exists>x. r = Inr x \<and> f x = Inr y)"
  by (cases r) simp_all

lemma performDownload_eq:
  "performDownload w doc c =
     bind_js (document_file doc c) (\<lambda>f. Inr (w\<lparr>downloads := downloads w @ [f]\<rparr>))"
proof (cases "mockContent doc (content_iso c)")
  case (Inl e)
  then show ?thesis by (simp add: performDownload_def document_file_def)
next
  case content_ok: (Inr t)
  show ?thesis
  proof (cases "if truthy (field doc ''fileName'') then Inr (field doc ''fileName'')
                else bind_js (generateDocumentFilename (field doc ''businessDomain'') (filename_iso c))
                       (\<lambda>name. Inr (Str name))")
    case (Inl e)
    then show ?thesis using content_ok by (simp add: performDownload_def document_file_def)
  next
    case (Inr name)
    then show ?thesis using content_ok
      by (cases "to_string name") (simp_all add: performDownload_def document_file_def downloadFile_def)
  qed
qed

lemma performDownload_frame:
  assumes "performDownload w doc c = Inr w'"
  shows "\<exists>f. document_file doc c = Inr f \<and> w' = w\<lparr>downloads := downloads w @ [f]\<rparr>"
  using assms unfolding performDownload_eq by (auto simp: bind_js_Inr)

lemma handleDownload_settle_frame:
  "isLoading (handleDownload_settle w q d r clk dclk) = False
   \<and> pending (handleDownload_settle w q d r clk dclk) = remove1 (generateDocument_fetch q d) (pending w)
   \<and> fetches (handleDownload_settle w q d r clk dclk) = fetches w
   \<and> businessDomain (handleDownload_settle w q d r clk dclk) = businessDomain w
   \<and> sqlQuery (handleDownload_settle w q d r clk dclk) = sqlQuery w"
  by (auto simp: handleDownload_settle_def Let_def split: sum.splits dest!: performDownload_frame)

text \<open>
  What holds of every state the page reaches through its own views: a call is pending
  exactly while the loading flag is set, and then only one; the selected domain is a
  menu value; every call issued so far is valid.
\<close>

lemma shell_invariant:
  "shell w \<Longrightarrow>
     (if isLoading w then length (pending w) = 1 else pending w = [])
     \<and> businessDomain w \<in> set menu_values
     \<and> list_all valid_call (fetches w)"
proof (induction rule: shell.induct)
  case init
  show ?case by (simp add: HomePage_init_def menu_values_def)
next
  case (type_query w s)
  then show ?case by (simp add: render_def)
next
  case (select_domain w d)
  then show ?case by (simp add: render_def)
next
  case (click_download w)
  then have idle: "\<not> isLoading w" "pending w = []"
    by (auto simp: render_def split: if_splits)
  show ?case
  proof (cases "isFormValid (sqlQuery w) (businessDomain w)")
    case True
    then have "valid_call (generateDocument_fetch (sqlQuery w) (businessDomain w))"
      using click_download.IH
      by (auto simp: valid_call_def isFormValid_def isQueryEmpty_def generateDocument_fetch_def
                     menu_values_def)
    then show ?thesis
      using True idle click_download.IH
      by (simp add: QueryForm_handleDownload_def handleDownload_call_def)
  next
    case False
    then show ?thesis
      using click_download.IH by (simp add: QueryForm_handleDownload_def)
  qed
next
  case (settle w c response clk dclk)
  then have "pending w = [c]"
    by (cases "pending w") (auto split: if_splits)
  then show ?case
    using settle.IH by (simp add: handleDownload_settle_frame)
next
  case (redownload w dclk w')
  then show ?case
    by (auto simp: handleRedownload_def split: option.splits dest!: performDownload_frame)
next
  case (new_query w)
  then show ?case
    by (simp add: handleNewQuery_def menu_values_def render_def split: if_splits)
next
  case (close_error w)
  then show ?case by (simp add: handleCloseError_def)
qed

lemma trim_example [simp]: "trim ''SELECT 1'' = ''SELECT 1''"
  by (simp add: trim_def is_space_def)

lemma shell_typed_example: "shell typed_example"
proof -
  have a: "shell (HomePage_init\<lparr>sqlQuery := ''SELECT 1''\<rparr>)"
    by (rule shell.type_query [OF shell.init]) (simp add: render_def HomePage_init_def)
  have "shell (HomePage_init\<lparr>sqlQuery := ''SELECT 1''\<rparr>\<lparr>businessDomain := ''finance''\<rparr>)"
    by (rule shell.select_domain [OF a])
       (simp_all add: render_def HomePage_init_def isQueryEmpty_def menu_values_def businessDomains_def)
  then show ?thesis by (simp add: typed_example_def)
qed

lemma submitted_example_eq:
  "QueryForm_handleDownload typed_example =
     typed_example\<lparr>isLoading := True, error := None,
       fetches := [\<lparr>script = ''SELECT 1'', business = ''finance''\<rparr>],
       pending := [\<lparr>script = ''SELECT 1'', business = ''finance''\<rparr>]\<rparr>"
  by (simp add: QueryForm_handleDownload_def typed_example_def isFormValid_def isQueryEmpty_def
        handleDownload_call_def HomePage_init_def generateDocument_fetch_def)

lemma shell_submitted: "shell (QueryForm_handleDownload typed_example)"
  by (rule shell.click_download [OF shell_typed_example])
     (simp add: render_def typed_example_def HomePage_init_def)

text \<open>
  C1, as the code has it. \<^verbatim>\<open>HomePage.handleDownload\<close> has no guard of its own: called
  while a submission is in flight it issues a second call. Single flight is kept by
  what the page renders: in every state reached through the page's views at most one
  generation call is pending, and while one is pending the page shows the loading view,
  which has no form and so no way to submit.
\<close>

theorem shell_single_flight:
  "shell w \<Longrightarrow> length (pending w) \<le> 1 \<and> (pending w \<noteq> [] \<longrightarrow> render w = LoadingState)"
  using shell_invariant [of w] by (auto simp: render_def split: if_splits)

theorem shell_single_flight_witness:
  "shell (QueryForm_handleDownload typed_example)
   \<and> length (pending (QueryForm_handleDownload typed_example)) \<le> 1
   \<and> pending (QueryForm_handleDownload typed_example) \<noteq> []
   \<and> render (QueryForm_handleDownload typed_example) = LoadingState"
  using shell_single_flight [OF shell_submitted] shell_submitted
  by (simp add: submitted_example_eq)

text \<open>
  C1 as stated fails: with one submission in flight, a further call of
  \<^verbatim>\<open>handleDownload\<close> is not rejected; it changes the state and leaves two calls pending.
\<close>

theorem overlapping_submit_counterexample:
  "isLoading submitting_example
   \<and> length (pending submitting_example) = 1
   \<and> handleDownload_call submitting_example ''SELECT 1'' ''finance'' \<noteq> submitting_example
   \<and> length (pending (handleDownload_call submitting_example ''SELECT 1'' ''finance'')) = 2
   \<and> length (fetches (handleDownload_call submitting_example ''SELECT 1'' ''finance'')) = 2"
proof -
  have "length (pending (handleDownload_call submitting_example ''SELECT 1'' ''finance'')) = 2"
    by (simp add: submitting_example_def handleDownload_call_def HomePage_init_def)
  moreover have "length (pending submitting_example) = 1"
    by (simp add: submitting_example_def handleDownload_call_def HomePage_init_def)
  ultimately have "handleDownload_call submitting_example ''SELECT 1'' ''finance'' \<noteq> submitting_example"
    by auto
  then show ?thesis
    by (simp add: submitting_example_def handleDownload_call_def HomePage_init_def)
qed

text \<open>
  C2, as the code has it. The validation is the guard of \<^verbatim>\<open>QueryForm.handleDownload\<close>:
  with a query that is empty after trimming, or with an empty domain, the submit is not
  forwarded, so the state is unchanged and no call is issued. The guard does not compare
  the domain with the ten codes; the select offers no other value, so every call issued
  through the page's views has a non-blank query and one of the ten domains.
\<close>

theorem form_guard_validation:
  "(trim (sqlQuery w) = [] \<or> businessDomain w = [] \<longrightarrow> QueryForm_handleDownload w = w)
   \<and> (shell v \<longrightarrow> list_all valid_call (fetches v))"
  using shell_invariant [of v]
  by (auto simp: QueryForm_handleDownload_def isFormValid_def isQueryEmpty_def)

theorem form_guard_validation_witness:
  "trim (sqlQuery HomePage_init) = []
   \<and> QueryForm_handleDownload HomePage_init = HomePage_init
   \<and> shell (QueryForm_handleDownload typed_example)
   \<and> fetches (QueryForm_handleDownload typed_example) = [\<lparr>script = ''SELECT 1'', business = ''finance''\<rparr>]
   \<and> list_all valid_call (fetches (QueryForm_handleDownload typed_example))"
proof -
  have t: "trim (sqlQuery HomePage_init) = []"
    by (simp add: HomePage_init_def trim_def)
  show ?thesis
    using form_guard_validation [of HomePage_init "QueryForm_handleDownload typed_example"]
      t shell_submitted
    by (simp add: submitted_example_eq)
qed

text \<open>
  C2 as stated fails: \<^verbatim>\<open>HomePage.handleDownload\<close>, called directly with an empty query or
  an empty domain, sets the loading flag and issues the call; and the form's guard lets
  a domain through that is none of the ten.
\<close>

theorem direct_submit_counterexample:
  "trim [] = []
   \<and> isLoading (handleDownload_call HomePage_init [] ''finance'')
   \<and> fetches (handleDownload_call HomePage_init [] ''finance'') = [\<lparr>script = [], business = ''finance''\<rparr>]
   \<and> isLoading (handleDownload_call HomePage_init ''SELECT 1'' [])
   \<and> fetches (handleDownload_call HomePage_init ''SELECT 1'' []) = [\<lparr>script = ''SELECT 1'', business = []\<rparr>]
   \<and> ''astrology'' \<notin> set (map fst businessDomains)
   \<and> QueryForm_handleDownload (HomePage_init\<lparr>sqlQuery := ''SELECT 1'', businessDomain := ''astrology''\<rparr>)
       \<noteq> HomePage_init\<lparr>sqlQuery := ''SELECT 1'', businessDomain := ''astrology''\<rparr>"
proof -
  have "isLoading (QueryForm_handleDownload (HomePage_init\<lparr>sqlQuery := ''SELECT 1'', businessDomain := ''astrology''\<rparr>))"
    by (simp add: QueryForm_handleDownload_def isFormValid_def isQueryEmpty_def
        handleDownload_call_def HomePage_init_def)
  moreover have "\<not> isLoading (HomePage_init\<lparr>sqlQuery := ''SELECT 1'', businessDomain := ''astrology''\<rparr>)"
    by (simp add: HomePage_init_def)
  ultimately have "QueryForm_handleDownload (HomePage_init\<lparr>sqlQuery := ''SELECT 1'', businessDomain := ''astrology''\<rparr>)
       \<noteq> HomePage_init\<lparr>sqlQuery := ''SELECT 1'', businessDomain := ''astrology''\<rparr>"
    by metis
  then show ?thesis
    by (simp add: handleDownload_call_def HomePage_init_def generateDocument_fetch_def trim_def
          businessDomains_def)
qed

lemma handleDownload_failure:
  assumes "generateDocument query domain response clk = Inl err"
  shows "handleDownload w query domain response clk dclk =
         w\<lparr>isLoading := False,
           error := Some (if message err \<noteq> [] then message err
                          else ''An error occurred while generating the document''),
           fetches := fetches w @ [generateDocument_fetch query domain],
           pending := remove1 (generateDocument_fetch query domain)
                        (pending w @ [generateDocument_fetch query domain])\<rparr>"
  using assms
  by (simp add: handleDownload_def handleDownload_settle_def handleDownload_call_def error_text_def)

lemma get_not_nullish:
  "d \<noteq> Null \<Longrightarrow> d \<noteq> Undefined \<Longrightarrow> get d k = Inr (field (own_props d) k)"
  by (cases d) (simp_all add: field_def)

lemma get_opt_field:
  "get_opt d k = field (own_props d) k"
  by (cases d) (simp_all add: get_opt_def field_def null_read_def)

lemma generateDocument_timeout:
  "generateDocument q d timeout_response clk = Inl (Error ''upstream timeout'')"
  by (simp add: generateDocument_def timeout_response_def ok_def get_opt_def or_js_def)

lemma generateDocument_not_ok:
  "\<not> ok status \<Longrightarrow>
   generateDocument q d (Response status b) clk =
     bind_js (to_string (or_js (case b of Malformed m \<Rightarrow> Undefined | Json v \<Rightarrow> get_opt v ''message'')
                               (Str (''Server error: '' @ show_nat status))))
       (\<lambda>msg. Inl (Error msg))"
  by (cases b) (simp_all add: generateDocument_def get_opt_def null_read_def)

lemma generateDocument_throws:
  assumes "case response of NetworkError m \<Rightarrow> True | Response status b \<Rightarrow> \<not> ok status"
  shows "\<exists>err. generateDocument q d response clk = Inl err"
proof (cases response)
  case (NetworkError m)
  then show ?thesis by (simp add: generateDocument_def)
next
  case (Response status b)
  then have "\<not> ok status" using assms by simp
  then show ?thesis
    unfolding Response generateDocument_not_ok [OF \<open>\<not> ok status\<close>]
    by (cases "to_string (or_js (case b of Malformed m \<Rightarrow> Undefined | Json v \<Rightarrow> get_opt v ''message'')
                               (Str (''Server error: '' @ show_nat status)))") simp_all
qed

lemma generateDocument_ok:
  assumes "ok status" "d \<noteq> Null" "d \<noteq> Undefined"
  shows "generateDocument q dm (Response status (Json d)) clk =
     Inr \<lparr>success = True,
          data = [''documentId'' \<mapsto> or_js (get_opt d ''documentId'') (Str (''DOC-'' @ show_nat (Date_now clk))),
                  ''fileName'' \<mapsto> or_js (get_opt d ''fileName'')
                     (Str (dm @ ''_analysis_'' @ take 10 (fileName_iso clk) @ ''.pdf'')),
                  ''fileSize'' \<mapsto> get_opt d ''fileSize'',
                  ''generatedAt'' \<mapsto> or_js (get_opt d ''generatedAt'') (Str (generatedAt_iso clk)),
                  ''downloadUrl'' \<mapsto> get_opt d ''downloadUrl'',
                  ''message'' \<mapsto> or_js (get_opt d ''message'') (Str ''Document generated successfully'')]
                 ++ own_props d\<rparr>"
  using assms by (simp add: generateDocument_def get_not_nullish get_opt_field)

text \<open>
  A run of \<^verbatim>\<open>handleDownload\<close> on a response for which \<^verbatim>\<open>generateDocument\<close> returns:
  the result is cached, and the success flag is set when the delivery does not throw.
\<close>

lemma handleDownload_returned:
  assumes "generateDocument q dm response clk = Inr r" "success r"
  shows "handleDownload w q dm response clk dclk =
     (case document_file ([''sqlQuery'' \<mapsto> Str q, ''businessDomain'' \<mapsto> Str dm] ++ data r) dclk of
        Inr f \<Rightarrow>
          w\<lparr>isLoading := False, error := None, showSuccess := True,
            lastDocument := Some ([''sqlQuery'' \<mapsto> Str q, ''businessDomain'' \<mapsto> Str dm] ++ data r),
            fetches := fetches w @ [generateDocument_fetch q dm],
            pending := remove1 (generateDocument_fetch q dm) (pending w @ [generateDocument_fetch q dm]),
            downloads := downloads w @ [f]\<rparr>
      | Inl e \<Rightarrow>
          w\<lparr>isLoading := False, error := Some (error_text e),
            lastDocument := Some ([''sqlQuery'' \<mapsto> Str q, ''businessDomain'' \<mapsto> Str dm] ++ data r),
            fetches := fetches w @ [generateDocument_fetch q dm],
            pending := remove1 (generateDocument_fetch q dm) (pending w @ [generateDocument_fetch q dm])\<rparr>)"
  using assms
  by (cases "document_file ([''sqlQuery'' \<mapsto> Str q, ''businessDomain'' \<mapsto> Str dm] ++ data r) dclk")
     (simp_all add: handleDownload_def handleDownload_settle_def handleDownload_call_def
        performDownload_eq Let_def)

text \<open>
  C5. On every response that is a network failure or has a status outside 200 to 299,
  \<^verbatim>\<open>generateDocument\<close> throws and \<^verbatim>\<open>handleDownload\<close> ends in the error state: the
  loading flag off, a non-empty error message, the success flag, the cached document and
  the delivered files as they were, and exactly one call issued. A response body whose
  \<^verbatim>\<open>message\<close> is a non-empty string gives exactly that message; a response with no truthy
  \<^verbatim>\<open>message\<close> gives "Server error: " and the status; a network failure gives the
  failure's message or the generic one. A further submit from that state is accepted:
  it clears the error, sets the loading flag and issues the second call; with a 2xx
  response and a JSON body other than \<^verbatim>\<open>null\<close> the result is cached, and the success
  flag is set when the delivery of the file does not throw.
\<close>

theorem generation_failure_error_state:
  assumes "case response of NetworkError m \<Rightarrow> True | Response status b \<Rightarrow> \<not> ok status"
  shows "(\<exists>err. generateDocument query domain response clk = Inl err)
     \<and> isLoading (handleDownload w query domain response clk dclk) = False
     \<and> (\<exists>m. error (handleDownload w query domain response clk dclk) = Some m \<and> m \<noteq> [])
     \<and> showSuccess (handleDownload w query domain response clk dclk) = showSuccess w
     \<and> lastDocument (handleDownload w query domain response clk dclk) = lastDocument w
     \<and> downloads (handleDownload w query domain response clk dclk) = downloads w
     \<and> fetches (handleDownload w query domain response clk dclk)
         = fetches w @ [generateDocument_fetch query domain]
     \<and> (\<forall>status d m. response = Response status (Json d) \<and> get_opt d ''message'' = Str m \<and> m \<noteq> []
          \<longrightarrow> error (handleDownload w query domain response clk dclk) = Some m)
     \<and> (\<forall>status b. response = Response status b
            \<and> \<not> truthy (case b of Malformed m \<Rightarrow> Undefined | Json d \<Rightarrow> get_opt d ''message'')
          \<longrightarrow> error (handleDownload w query domain response clk dclk)
                = Some (''Server error: '' @ show_nat status))
     \<and> (\<forall>m. response = NetworkError m
          \<longrightarrow> error (handleDownload w query domain response clk dclk)
                = Some (if m \<noteq> [] then m else ''An error occurred while generating the document''))
     \<and> (\<forall>query2 domain2.
            isLoading (handleDownload_call (handleDownload w query domain response clk dclk) query2 domain2)
          \<and> error (handleDownload_call (handleDownload w query domain response clk dclk) query2 domain2)
              = None
          \<and> fetches (handleDownload_call (handleDownload w query domain response clk dclk) query2 domain2)
              = fetches w @ [generateDocument_fetch query domain, generateDocument_fetch query2 domain2])
     \<and> (\<forall>query2 domain2 status2 d2 clk2 dclk2. ok status2 \<and> d2 \<noteq> Null \<and> d2 \<noteq> Undefined \<longrightarrow>
           (\<exists>r. generateDocument query2 domain2 (Response status2 (Json d2)) clk2 = Inr r
              \<and> isLoading (handleDownload (handleDownload w query domain response clk dclk)
                    query2 domain2 (Response status2 (Json d2)) clk2 dclk2) = False
              \<and> lastDocument (handleDownload (handleDownload w query domain response clk dclk)
                    query2 domain2 (Response status2 (Json d2)) clk2 dclk2)
                  = Some ([''sqlQuery'' \<mapsto> Str query2, ''businessDomain'' \<mapsto> Str domain2] ++ data r)
              \<and> (\<forall>w3. performDownload
                          ((handleDownload w query domain response clk dclk)
                             \<lparr>lastDocument :=
                                Some ([''sqlQuery'' \<mapsto> Str query2, ''businessDomain'' \<mapsto> Str domain2] ++ data r)\<rparr>)
                          ([''sqlQuery'' \<mapsto> Str query2, ''businessDomain'' \<mapsto> Str domain2] ++ data r) dclk2
                        = Inr w3
                    \<longrightarrow> showSuccess (handleDownload (handleDownload w query domain response clk dclk)
                            query2 domain2 (Response status2 (Json d2)) clk2 dclk2)
                      \<and> error (handleDownload (handleDownload w query domain response clk dclk)
                            query2 domain2 (Response status2 (Json d2)) clk2 dclk2) = None
                      \<and> downloads (handleDownload (handleDownload w query domain response clk dclk)
                            query2 domain2 (Response status2 (Json d2)) clk2 dclk2) = downloads w3)))"
proof -
  let ?H = "handleDownload w query domain response clk dclk"
  obtain err where err: "generateDocument query domain response clk = Inl err"
    using generateDocument_throws [OF assms] by blast
  note H = handleDownload_failure [OF err, of w dclk]
  have 0: "\<exists>err. generateDocument query domain response clk = Inl err" using err by blast
  have 1: "isLoading ?H = False" by (simp add: H)
  have 2: "\<exists>m. error ?H = Some m \<and> m \<noteq> []" by (simp add: H)
  have 3: "fetches ?H = fetches w @ [generateDocument_fetch query domain]" by (simp add: H)
  have f: "showSuccess ?H = showSuccess w" "lastDocument ?H = lastDocument w"
      "downloads ?H = downloads w"
    by (simp_all add: H)
  have 4: "error ?H = Some m"
    if "response = Response status (Json d)" "get_opt d ''message'' = Str m" "m \<noteq> []" for status d m
  proof -
    have "\<not> ok status" using assms that(1) by simp
    then have "err = Error m"
      using err that generateDocument_not_ok [of status query domain "Json d" clk]
      by (simp add: or_js_def)
    then show ?thesis using that(3) by (simp add: H)
  qed
  have 5: "error ?H = Some (''Server error: '' @ show_nat status)"
    if "response = Response status b"
       "\<not> truthy (case b of Malformed m \<Rightarrow> Undefined | Json d \<Rightarrow> get_opt d ''message'')" for status b
  proof -
    have "\<not> ok status" using assms that(1) by simp
    then have "err = Error (''Server error: '' @ show_nat status)"
      using err that generateDocument_not_ok [of status query domain b clk]
      by (simp add: or_js_def)
    then show ?thesis by (simp add: H)
  qed
  have 6: "error ?H = Some (if m \<noteq> [] then m else ''An error occurred while generating the document'')"
    if "response = NetworkError m" for m
  proof -
    have "err = TypeError m"
      using err that by (simp add: generateDocument_def)
    then show ?thesis by (simp add: H)
  qed
  have 7: "isLoading (handleDownload_call ?H query2 domain2)
      \<and> error (handleDownload_call ?H query2 domain2) = None
      \<and> fetches (handleDownload_call ?H query2 domain2)
          = fetches w @ [generateDocument_fetch query domain, generateDocument_fetch query2 domain2]"
    for query2 domain2
    using 3 by (simp add: handleDownload_call_def)
  have 8: "\<exists>r. generateDocument query2 domain2 (Response status2 (Json d2)) clk2 = Inr r
      \<and> isLoading (handleDownload ?H query2 domain2 (Response status2 (Json d2)) clk2 dclk2) = False
      \<and> lastDocument (handleDownload ?H query2 domain2 (Response status2 (Json d2)) clk2 dclk2)
          = Some ([''sqlQuery'' \<mapsto> Str query2, ''businessDomain'' \<mapsto> Str domain2] ++ data r)
      \<and> (\<forall>w3. performDownload
                  (?H\<lparr>lastDocument :=
                        Some ([''sqlQuery'' \<mapsto> Str query2, ''businessDomain'' \<mapsto> Str domain2] ++ data r)\<rparr>)
                  ([''sqlQuery'' \<mapsto> Str query2, ''businessDomain'' \<mapsto> Str domain2] ++ data r) dclk2
                = Inr w3
            \<longrightarrow> showSuccess (handleDownload ?H query2 domain2 (Response status2 (Json d2)) clk2 dclk2)
              \<and> error (handleDownload ?H query2 domain2 (Response status2 (Json d2)) clk2 dclk2) = None
              \<and> downloads (handleDownload ?H query2 domain2 (Response status2 (Json d2)) clk2 dclk2)
                  = downloads w3)"
    if "ok status2" "d2 \<noteq> Null" "d2 \<noteq> Undefined" for query2 domain2 status2 d2 clk2 dclk2
  proof -
    note g = generateDocument_ok [OF that, of query2 domain2 clk2]
    let ?r = "projr (generateDocument query2 domain2 (Response status2 (Json d2)) clk2)"
    have gr: "generateDocument query2 domain2 (Response status2 (Json d2)) clk2 = Inr ?r"
      "success ?r"
      by (simp_all add: g)
    note R = handleDownload_returned [OF gr, of ?H dclk2]
    show ?thesis
      apply (rule exI [of _ ?r])
      apply (intro conjI allI impI)
           apply (rule gr(1))
          apply (simp add: R split: sum.splits)
         apply (simp add: R split: sum.splits)
        apply (auto simp: R performDownload_eq bind_js_Inr split: sum.splits)
      done
  qed
  show ?thesis
    using 0 1 2 f 3 4 5 6 7 8 by blast
qed

lemma empty_body_result:
  "generateDocument ''SELECT 2'' ''finance'' (Response 200 (Json (Obj Map.empty))) example_clock
     = Inr \<lparr>success = True,
            data = [''documentId'' \<mapsto> Str ''DOC-1704067200000'',
                    ''fileName'' \<mapsto> Str ''finance_analysis_2024-01-01.pdf'',
                    ''fileSize'' \<mapsto> Undefined,
                    ''generatedAt'' \<mapsto> Str ''2024-01-01T00:00:00.001Z'',
                    ''downloadUrl'' \<mapsto> Undefined,
                    ''message'' \<mapsto> Str ''Document generated successfully'']\<rparr>"
proof -
  have k: "ok 200" by (simp add: ok_def)
  have n: "show_nat 1704067200000 = ''1704067200000''"
    by (simp add: show_nat.simps digit_def)
  show ?thesis
    by (simp add: generateDocument_ok [OF k] get_opt_def or_js_def example_clock_def n)
qed

text \<open>
  The scenario of the 500 response \<^verbatim>\<open>{ message: "upstream timeout" }\<close>, followed by a
  submit that is answered with 200 and an empty object.
\<close>

theorem generation_failure_error_state_witness:
  "\<not> ok 500
   \<and> generateDocument ''SELECT 1'' ''finance'' timeout_response example_clock = Inl (Error ''upstream timeout'')
   \<and> isLoading (handleDownload HomePage_init ''SELECT 1'' ''finance'' timeout_response example_clock
        example_download_clock) = False
   \<and> showSuccess (handleDownload HomePage_init ''SELECT 1'' ''finance'' timeout_response example_clock
        example_download_clock) = False
   \<and> error (handleDownload HomePage_init ''SELECT 1'' ''finance'' timeout_response example_clock
        example_download_clock) = Some ''upstream timeout''
   \<and> fetches (handleDownload HomePage_init ''SELECT 1'' ''finance'' timeout_response example_clock
        example_download_clock) = [\<lparr>script = ''SELECT 1'', business = ''finance''\<rparr>]
   \<and> showSuccess (handleDownload
        (handleDownload HomePage_init ''SELECT 1'' ''finance'' timeout_response example_clock
           example_download_clock)
        ''SELECT 2'' ''finance'' (Response 200 (Json (Obj Map.empty))) example_clock example_download_clock)
   \<and> map filename (downloads (handleDownload
        (handleDownload HomePage_init ''SELECT 1'' ''finance'' timeout_response example_clock
           example_download_clock)
        ''SELECT 2'' ''finance'' (Response 200 (Json (Obj Map.empty))) example_clock example_download_clock))
      = [''finance_analysis_2024-01-01.pdf'']"
proof -
  let ?H = "handleDownload HomePage_init ''SELECT 1'' ''finance'' timeout_response example_clock
              example_download_clock"
  let ?H2 = "handleDownload ?H ''SELECT 2'' ''finance'' (Response 200 (Json (Obj Map.empty)))
               example_clock example_download_clock"
  let ?doc = "[''sqlQuery'' \<mapsto> Str ''SELECT 2'', ''businessDomain'' \<mapsto> Str ''finance'']
        ++ [''documentId'' \<mapsto> Str ''DOC-1704067200000'',
            ''fileName'' \<mapsto> Str ''finance_analysis_2024-01-01.pdf'',
            ''fileSize'' \<mapsto> Undefined,
            ''generatedAt'' \<mapsto> Str ''2024-01-01T00:00:00.001Z'',
            ''downloadUrl'' \<mapsto> Undefined,
            ''message'' \<mapsto> Str ''Document generated successfully'']"
  have h: "case timeout_response of NetworkError m \<Rightarrow> True | Response status b \<Rightarrow> \<not> ok status"
    and k: "\<not> ok 500" "ok 200"
    by (simp_all add: timeout_response_def ok_def)
  note t = generation_failure_error_state [OF h, of "''SELECT 1''" "''finance''" example_clock
      HomePage_init example_download_clock]
  have g: "generateDocument ''SELECT 1'' ''finance'' timeout_response example_clock
             = Inl (Error ''upstream timeout'')"
    by (rule generateDocument_timeout)
  have m: "get_opt (Obj [''message'' \<mapsto> Str ''upstream timeout'']) ''message'' = Str ''upstream timeout''"
    by (simp add: get_opt_def)
  have a: "isLoading ?H = False" "showSuccess ?H = False"
      "fetches ?H = [\<lparr>script = ''SELECT 1'', business = ''finance''\<rparr>]"
      "downloads ?H = []"
    using t by (simp_all add: HomePage_init_def generateDocument_fetch_def)
  have e: "error ?H = Some ''upstream timeout''"
    using t m by (simp add: timeout_response_def)
  obtain f where f: "document_file ?doc example_download_clock = Inr f"
      "filename f = ''finance_analysis_2024-01-01.pdf''"
    by (simp add: document_file_def mockContent_def field_def)
  have p: "performDownload (?H\<lparr>lastDocument := Some ?doc\<rparr>) ?doc example_download_clock
        = Inr (?H\<lparr>lastDocument := Some ?doc, downloads := [f]\<rparr>)"
    using f(1) a(4) by (simp add: performDownload_eq)
  note t8 = t [THEN conjunct2, THEN conjunct2, THEN conjunct2, THEN conjunct2, THEN conjunct2,
      THEN conjunct2, THEN conjunct2, THEN conjunct2, THEN conjunct2, THEN conjunct2,
      THEN conjunct2, rule_format]
  have c: "ok 200 \<and> Obj Map.empty \<noteq> Null \<and> Obj Map.empty \<noteq> Undefined"
    using k(2) by simp
  obtain r where r:
      "generateDocument ''SELECT 2'' ''finance'' (Response 200 (Json (Obj Map.empty))) example_clock = Inr r"
      "\<forall>w3. performDownload
          (?H\<lparr>lastDocument :=
                Some ([''sqlQuery'' \<mapsto> Str ''SELECT 2'', ''businessDomain'' \<mapsto> Str ''finance''] ++ data r)\<rparr>)
          ([''sqlQuery'' \<mapsto> Str ''SELECT 2'', ''businessDomain'' \<mapsto> Str ''finance''] ++ data r)
          example_download_clock = Inr w3
        \<longrightarrow> showSuccess ?H2 \<and> error ?H2 = None \<and> downloads ?H2 = downloads w3"
    using t8 [OF c, of "''SELECT 2''" "''finance''" example_clock example_download_clock] by blast
  have "data r = [''documentId'' \<mapsto> Str ''DOC-1704067200000'',
            ''fileName'' \<mapsto> Str ''finance_analysis_2024-01-01.pdf'',
            ''fileSize'' \<mapsto> Undefined,
            ''generatedAt'' \<mapsto> Str ''2024-01-01T00:00:00.001Z'',
            ''downloadUrl'' \<mapsto> Undefined,
            ''message'' \<mapsto> Str ''Document generated successfully'']"
    using r(1) empty_body_result by auto
  then have "showSuccess ?H2 \<and> error ?H2 = None
      \<and> downloads ?H2 = downloads (?H\<lparr>lastDocument := Some ?doc, downloads := [f]\<rparr>)"
    using r(2) [rule_format, of "?H\<lparr>lastDocument := Some ?doc, downloads := [f]\<rparr>"] p
    by simp
  then have "showSuccess ?H2 \<and> downloads ?H2 = [f]"
    by simp
  then show ?thesis
    using k(1) g a e f(2) by simp
qed

text \<open>
  C6. On a 2xx response with a JSON body other than \<^verbatim>\<open>null\<close>, \<^verbatim>\<open>generateDocument\<close>
  returns a result, which \<^verbatim>\<open>handleDownload\<close> caches, and in it each of
  \<^verbatim>\<open>documentId\<close>, \<^verbatim>\<open>fileName\<close> and \<^verbatim>\<open>generatedAt\<close> is the backend's value when the
  body has that property (the spread \<^verbatim>\<open>...data\<close> comes last), and otherwise the default:
  "DOC-" and \<^verbatim>\<open>Date.now()\<close>, the domain with the first ten characters of the ISO date,
  the ISO timestamp.
\<close>

theorem generation_result_defaults:
  assumes "ok status" "d \<noteq> Null" "d \<noteq> Undefined"
  shows "\<exists>r. generateDocument query domain (Response status (Json d)) clk = Inr r
     \<and> lastDocument (handleDownload w query domain (Response status (Json d)) clk dclk)
         = Some ([''sqlQuery'' \<mapsto> Str query, ''businessDomain'' \<mapsto> Str domain] ++ data r)
     \<and> field (data r) ''documentId''
         = (case own_props d ''documentId'' of
              Some v \<Rightarrow> v | None \<Rightarrow> Str (''DOC-'' @ show_nat (Date_now clk)))
     \<and> field (data r) ''fileName''
         = (case own_props d ''fileName'' of
              Some v \<Rightarrow> v
            | None \<Rightarrow> Str (domain @ ''_analysis_'' @ take 10 (fileName_iso clk) @ ''.pdf''))
     \<and> field (data r) ''generatedAt''
         = (case own_props d ''generatedAt'' of
              Some v \<Rightarrow> v | None \<Rightarrow> Str (generatedAt_iso clk))"
proof -
  note g = generateDocument_ok [OF assms, of query domain clk]
  let ?r = "projr (generateDocument query domain (Response status (Json d)) clk)"
  have gr: "generateDocument query domain (Response status (Json d)) clk = Inr ?r" "success ?r"
    by (simp_all add: g)
  have l: "lastDocument (handleDownload w query domain (Response status (Json d)) clk dclk)
         = Some ([''sqlQuery'' \<mapsto> Str query, ''businessDomain'' \<mapsto> Str domain] ++ data ?r)"
    by (simp add: handleDownload_returned [OF gr] split: sum.splits)
  show ?thesis
    apply (rule exI [of _ ?r])
    apply (intro conjI)
        apply (rule gr(1))
       apply (rule l)
      apply (simp_all add: g field_def map_add_def get_opt_field or_js_def split: option.splits)
    done
qed

text \<open>A body with a \<^verbatim>\<open>documentId\<close> only: it is kept, the other two fields are defaulted.\<close>

theorem generation_result_defaults_witness:
  "ok 200
   \<and> field (data (projr (generateDocument ''SELECT * FROM orders'' ''retail''
        (Response 200 (Json (Obj [''documentId'' \<mapsto> Str ''DOC-1'']))) example_clock))) ''documentId''
       = Str ''DOC-1''
   \<and> field (data (projr (generateDocument ''SELECT * FROM orders'' ''retail''
        (Response 200 (Json (Obj [''documentId'' \<mapsto> Str ''DOC-1'']))) example_clock))) ''fileName''
       = Str ''retail_analysis_2024-01-01.pdf''
   \<and> field (data (projr (generateDocument ''SELECT * FROM orders'' ''retail''
        (Response 200 (Json (Obj [''documentId'' \<mapsto> Str ''DOC-1'']))) example_clock))) ''generatedAt''
       = Str ''2024-01-01T00:00:00.001Z''"
proof -
  have k: "ok 200" by (simp add: ok_def)
  obtain r where
    "generateDocument ''SELECT * FROM orders'' ''retail''
        (Response 200 (Json (Obj [''documentId'' \<mapsto> Str ''DOC-1'']))) example_clock = Inr r"
    "field (data r) ''documentId'' = Str ''DOC-1''"
    "field (data r) ''fileName'' = Str ''retail_analysis_2024-01-01.pdf''"
    "field (data r) ''generatedAt'' = Str ''2024-01-01T00:00:00.001Z''"
    using generation_result_defaults [OF k, of "Obj [''documentId'' \<mapsto> Str ''DOC-1'']"
        "''SELECT * FROM orders''" "''retail''" example_clock HomePage_init example_download_clock]
    by (auto simp: example_clock_def)
  then show ?thesis using k by simp
qed

lemma document_file_delivered:
  assumes "document_file doc c0 = Inr f0"
  shows "\<exists>domain_text id_text query_text name_text.
       to_string (field doc ''businessDomain'') = Inr domain_text
     \<and> to_string (field doc ''documentId'') = Inr id_text
     \<and> to_string (field doc ''sqlQuery'') = Inr query_text
     \<and> (truthy (field doc ''fileName'') \<longrightarrow> to_string (field doc ''fileName'') = Inr name_text)
     \<and> (\<forall>c. document_file doc c =
           Inr \<lparr>content =
                  nl @ ''AnalyzeAI ANALYSIS REPORT'' @ nl
                  @ ''====================='' @ nl
                  @ nl
                  @ ''Business Domain: '' @ domain_text @ nl
                  @ ''Generated: '' @ content_iso c @ nl
                  @ ''Document ID: '' @ id_text @ nl
                  @ nl
                  @ ''SQL Query Analysis:'' @ nl
                  @ query_text @ nl
                  @ nl
                  @ ''[This is a mock document. In production, this would contain the actual analysis.]'' @ nl
                  @ ''    '',
                filename =
                  (if truthy (field doc ''fileName'') then name_text
                   else domain_text @ ''_analysis_''
                        @ map (\<lambda>x. if x = CHR '':'' \<or> x = CHR ''.'' then CHR ''-'' else x) (filename_iso c)
                        @ ''.doc''),
                contentType = ''text/plain''\<rparr>)"
proof -
  obtain b i q where s: "to_string (field doc ''businessDomain'') = Inr b"
      "to_string (field doc ''documentId'') = Inr i"
      "to_string (field doc ''sqlQuery'') = Inr q"
    using assms by (auto simp: document_file_def mockContent_def bind_js_Inr)
  show ?thesis
  proof (cases "truthy (field doc ''fileName'')")
    case True
    then obtain n where n: "to_string (field doc ''fileName'') = Inr n"
      using assms by (auto simp: document_file_def bind_js_Inr)
    show ?thesis
      using s n True by (simp add: document_file_def mockContent_def)
  next
    case False
    show ?thesis
      using s False by (simp add: document_file_def mockContent_def generateDocumentFilename_def)
  qed
qed

lemma redownloads_eq:
  assumes "lastDocument w = Some doc" "\<And>c. document_file doc c = Inr (F c)"
  shows "redownloads w cs = Inr (w\<lparr>downloads := downloads w @ map F cs\<rparr>)"
  using assms(1)
proof (induction cs arbitrary: w)
  case Nil
  then show ?case by simp
next
  case (Cons c cs)
  have "handleRedownload w c = Inr (w\<lparr>downloads := downloads w @ [F c]\<rparr>)"
    using Cons.prems by (simp add: handleRedownload_def performDownload_eq assms(2))
  moreover have "lastDocument (w\<lparr>downloads := downloads w @ [F c]\<rparr>) = Some doc"
    using Cons.prems by simp
  ultimately show ?case
    using Cons.IH [of "w\<lparr>downloads := downloads w @ [F c]\<rparr>"] by simp
qed

text \<open>
  In every state the page reaches through its views, the success flag is never set while
  a call is loading, and when it is set the cached document is one whose delivery has
  succeeded.
\<close>

lemma shell_success_delivered:
  "shell w \<Longrightarrow>
     (isLoading w \<longrightarrow> \<not> showSuccess w)
     \<and> (showSuccess w \<longrightarrow> (\<exists>doc c f. lastDocument w = Some doc \<and> document_file doc c = Inr f))"
proof (induction rule: shell.induct)
  case init
  show ?case by (simp add: HomePage_init_def)
next
  case (type_query w s)
  then show ?case by simp
next
  case (select_domain w d)
  then show ?case by simp
next
  case (click_download w)
  then show ?case
    by (auto simp: QueryForm_handleDownload_def handleDownload_call_def render_def split: if_splits)
next
  case (settle w c response clk dclk)
  have "isLoading w"
    using shell_invariant [OF settle.hyps(1)] settle.hyps(2) by (auto split: if_splits)
  then have n: "\<not> showSuccess w" using settle.IH by simp
  show ?case
  proof (cases "generateDocument (script c) (business c) response clk")
    case (Inl e)
    then show ?thesis using n by (simp add: handleDownload_settle_def)
  next
    case (Inr r)
    show ?thesis
    proof (cases "success r")
      case False
      then show ?thesis using n Inr by (simp add: handleDownload_settle_def)
    next
      case True
      let ?doc = "[''sqlQuery'' \<mapsto> Str (script c), ''businessDomain'' \<mapsto> Str (business c)] ++ data r"
      show ?thesis
      proof (cases "document_file ?doc dclk")
        case (Inl e)
        then show ?thesis using n Inr True
          by (simp add: handleDownload_settle_def performDownload_eq Let_def)
      next
        case f: (Inr f)
        have "lastDocument (handleDownload_settle w (script c) (business c) response clk dclk) = Some ?doc"
          "isLoading (handleDownload_settle w (script c) (business c) response clk dclk) = False"
          using Inr True f by (simp_all add: handleDownload_settle_def performDownload_eq Let_def)
        then show ?thesis using f by auto
      qed
    qed
  qed
next
  case (redownload w dclk w')
  have "\<exists>fs. w' = w\<lparr>downloads := downloads w @ fs\<rparr>"
  proof (cases "lastDocument w")
    case None
    then have "w' = w\<lparr>downloads := downloads w @ []\<rparr>"
      using redownload.hyps(3) by (simp add: handleRedownload_def)
    then show ?thesis by blast
  next
    case (Some doc)
    then show ?thesis
      using redownload.hyps(3) performDownload_frame [of w doc dclk w']
      by (auto simp: handleRedownload_def)
  qed
  then obtain fs where "w' = w\<lparr>downloads := downloads w @ fs\<rparr>" by blast
  then show ?case using redownload.IH by simp
next
  case (new_query w)
  then show ?case by (simp add: handleNewQuery_def render_def split: if_splits)
next
  case (close_error w)
  then show ?case by (simp add: handleCloseError_def)
qed

text \<open>
  Whenever a settling call turns the success flag on, the document it has cached is the
  one it has just delivered.
\<close>

lemma settle_success_delivered:
  assumes "\<not> showSuccess w0" "showSuccess (handleDownload_settle w0 q d response clk dclk)"
  shows "\<exists>doc v v'. lastDocument (handleDownload_settle w0 q d response clk dclk) = Some doc
           \<and> performDownload v doc dclk = Inr v'"
proof (cases "generateDocument q d response clk")
  case (Inl e)
  then show ?thesis using assms by (simp add: handleDownload_settle_def)
next
  case (Inr r)
  show ?thesis
  proof (cases "success r")
    case False
    then show ?thesis using assms Inr by (simp add: handleDownload_settle_def)
  next
    case True
    let ?doc = "[''sqlQuery'' \<mapsto> Str q, ''businessDomain'' \<mapsto> Str d] ++ data r"
    let ?w2 = "w0\<lparr>pending := remove1 (generateDocument_fetch q d) (pending w0),
                   lastDocument := Some ?doc\<rparr>"
    show ?thesis
    proof (cases "performDownload ?w2 ?doc dclk")
      case (Inl e)
      then show ?thesis using assms Inr True
        by (simp add: handleDownload_settle_def Let_def)
    next
      case w3: (Inr w3)
      then have "lastDocument w3 = Some ?doc"
        using performDownload_frame [OF w3] by auto
      then have "lastDocument (handleDownload_settle w0 q d response clk dclk) = Some ?doc"
        using Inr True w3 by (simp add: handleDownload_settle_def Let_def)
      then show ?thesis using w3 by blast
    qed
  qed
qed

text \<open>
  C7. In a success state whose cached document has been delivered once (which is how the
  success flag gets set), any number of redownloads issues no generation call and changes
  nothing of the state but the list of delivered files. Each invocation delivers one
  plain-text file made from the cached document: its text is the report with the
  document's business domain, document id and SQL query and the time of the invocation,
  and its name is the document's \<^verbatim>\<open>fileName\<close>, or when that is falsy the domain with the
  time of the invocation. Every success state the page reaches through its views has
  such a cached document, and so has every state in which a settling call has just set
  the success flag.
\<close>

theorem redownload_network_free:
  "(showSuccess w \<and> \<not> isLoading w \<and> lastDocument w = Some doc
      \<and> performDownload v doc c0 = Inr v' \<longrightarrow>
     (\<exists>domain_text id_text query_text name_text w'.
         to_string (field doc ''businessDomain'') = Inr domain_text
       \<and> to_string (field doc ''documentId'') = Inr id_text
       \<and> to_string (field doc ''sqlQuery'') = Inr query_text
       \<and> (truthy (field doc ''fileName'') \<longrightarrow> to_string (field doc ''fileName'') = Inr name_text)
       \<and> redownloads w cs = Inr w'
       \<and> w' = w\<lparr>downloads := downloads w @
            map (\<lambda>c.
              \<lparr>content =
                  nl @ ''AnalyzeAI ANALYSIS REPORT'' @ nl
                  @ ''====================='' @ nl
                  @ nl
                  @ ''Business Domain: '' @ domain_text @ nl
                  @ ''Generated: '' @ content_iso c @ nl
                  @ ''Document ID: '' @ id_text @ nl
                  @ nl
                  @ ''SQL Query Analysis:'' @ nl
                  @ query_text @ nl
                  @ nl
                  @ ''[This is a mock document. In production, this would contain the actual analysis.]'' @ nl
                  @ ''    '',
               filename =
                  (if truthy (field doc ''fileName'') then name_text
                   else domain_text @ ''_analysis_''
                        @ map (\<lambda>x. if x = CHR '':'' \<or> x = CHR ''.'' then CHR ''-'' else x) (filename_iso c)
                        @ ''.doc''),
               contentType = ''text/plain''\<rparr>) cs\<rparr>
       \<and> fetches w' = fetches w
       \<and> pending w' = pending w
       \<and> lastDocument w' = Some doc
       \<and> render w' = SuccessState
       \<and> length (downloads w') = length (downloads w) + length cs))
   \<and> (shell u \<and> showSuccess u \<longrightarrow>
        (\<exists>doc0 v0 c0 v0'. lastDocument u = Some doc0 \<and> performDownload v0 doc0 c0 = Inr v0'))
   \<and> (\<not> showSuccess w0 \<and> showSuccess (handleDownload_settle w0 query domain response clk dclk) \<longrightarrow>
        (\<exists>doc0 v0 v0'. lastDocument (handleDownload_settle w0 query domain response clk dclk) = Some doc0
            \<and> performDownload v0 doc0 dclk = Inr v0'))"
proof -
  have C: "\<exists>doc0 v0 v0'. lastDocument (handleDownload_settle w0 query domain response clk dclk) = Some doc0
            \<and> performDownload v0 doc0 dclk = Inr v0'"
    if "\<not> showSuccess w0" "showSuccess (handleDownload_settle w0 query domain response clk dclk)"
    using settle_success_delivered [OF that] .
  have B: "\<exists>doc0 v0 c0 v0'. lastDocument u = Some doc0 \<and> performDownload v0 doc0 c0 = Inr v0'"
    if su: "shell u" "showSuccess u"
  proof -
    obtain doc0 c f where "lastDocument u = Some doc0" "document_file doc0 c = Inr f"
      using shell_success_delivered [OF su(1)] su(2) by blast
    then have "lastDocument u = Some doc0 \<and> performDownload u doc0 c = Inr (u\<lparr>downloads := downloads u @ [f]\<rparr>)"
      by (simp add: performDownload_eq)
    then show ?thesis by blast
  qed
  have A: "\<exists>domain_text id_text query_text name_text w'.
         to_string (field doc ''businessDomain'') = Inr domain_text
       \<and> to_string (field doc ''documentId'') = Inr id_text
       \<and> to_string (field doc ''sqlQuery'') = Inr query_text
       \<and> (truthy (field doc ''fileName'') \<longrightarrow> to_string (field doc ''fileName'') = Inr name_text)
       \<and> redownloads w cs = Inr w'
       \<and> w' = w\<lparr>downloads := downloads w @
            map (\<lambda>c.
              \<lparr>content =
                  nl @ ''AnalyzeAI ANALYSIS REPORT'' @ nl
                  @ ''====================='' @ nl
                  @ nl
                  @ ''Business Domain: '' @ domain_text @ nl
                  @ ''Generated: '' @ content_iso c @ nl
                  @ ''Document ID: '' @ id_text @ nl
                  @ nl
                  @ ''SQL Query Analysis:'' @ nl
                  @ query_text @ nl
                  @ nl
                  @ ''[This is a mock document. In production, this would contain the actual analysis.]'' @ nl
                  @ ''    '',
               filename =
                  (if truthy (field doc ''fileName'') then name_text
                   else domain_text @ ''_analysis_''
                        @ map (\<lambda>x. if x = CHR '':'' \<or> x = CHR ''.'' then CHR ''-'' else x) (filename_iso c)
                        @ ''.doc''),
               contentType = ''text/plain''\<rparr>) cs\<rparr>
       \<and> fetches w' = fetches w
       \<and> pending w' = pending w
       \<and> lastDocument w' = Some doc
       \<and> render w' = SuccessState
       \<and> length (downloads w') = length (downloads w) + length cs"
    if h: "showSuccess w" "\<not> isLoading w" "lastDocument w = Some doc" "performDownload v doc c0 = Inr v'"
  proof -
    obtain f0 where "document_file doc c0 = Inr f0"
      using performDownload_frame [OF h(4)] by blast
    from document_file_delivered [OF this]
    obtain b i q n where s: "to_string (field doc ''businessDomain'') = Inr b"
      "to_string (field doc ''documentId'') = Inr i"
      "to_string (field doc ''sqlQuery'') = Inr q"
      "truthy (field doc ''fileName'') \<longrightarrow> to_string (field doc ''fileName'') = Inr n"
      and F: "\<And>c. document_file doc c =
           Inr \<lparr>content =
                  nl @ ''AnalyzeAI ANALYSIS REPORT'' @ nl
                  @ ''====================='' @ nl
                  @ nl
                  @ ''Business Domain: '' @ b @ nl
                  @ ''Generated: '' @ content_iso c @ nl
                  @ ''Document ID: '' @ i @ nl
                  @ nl
                  @ ''SQL Query Analysis:'' @ nl
                  @ q @ nl
                  @ nl
                  @ ''[This is a mock document. In production, this would contain the actual analysis.]'' @ nl
                  @ ''    '',
                filename =
                  (if truthy (field doc ''fileName'') then n
                   else b @ ''_analysis_''
                        @ map (\<lambda>x. if x = CHR '':'' \<or> x = CHR ''.'' then CHR ''-'' else x) (filename_iso c)
                        @ ''.doc''),
                contentType = ''text/plain''\<rparr>"
      by blast
    note R = redownloads_eq [OF h(3), of _ cs, OF F]
    show ?thesis
      apply (rule exI [of _ b], rule exI [of _ i], rule exI [of _ q], rule exI [of _ n])
      apply (rule exI [of _ "projr (redownloads w cs)"])
      using s h(1,2,3) by (simp add: R render_def)
  qed
  show ?thesis using A B C by blast
qed

lemma retail_document_fields:
  "field retail_document ''businessDomain'' = Str ''retail''"
  "field retail_document ''documentId'' = Str ''DOC-1''"
  "field retail_document ''sqlQuery'' = Str ''SELECT * FROM orders''"
  "field retail_document ''fileName'' = Str ''retail_analysis_2024-01-01.pdf''"
proof -
  have k: "ok 200" by (simp add: ok_def)
  show "field retail_document ''businessDomain'' = Str ''retail''"
    "field retail_document ''documentId'' = Str ''DOC-1''"
    "field retail_document ''sqlQuery'' = Str ''SELECT * FROM orders''"
    "field retail_document ''fileName'' = Str ''retail_analysis_2024-01-01.pdf''"
    by (simp_all add: retail_document_def retail_response_def generateDocument_ok [OF k] field_def
          map_add_def get_opt_def or_js_def)
qed

lemma retail_document_file:
  "document_file retail_document example_download_clock = Inr retail_file"
  by (simp add: document_file_def mockContent_def retail_document_fields retail_file_def
        example_download_clock_def)

lemma retail_success_eq:
  "retail_success = HomePage_init\<lparr>showSuccess := True,
       lastDocument := Some retail_document,
       fetches := [\<lparr>script = ''SELECT * FROM orders'', business = ''retail''\<rparr>],
       downloads := [retail_file]\<rparr>"
proof -
  have k: "ok 200" by (simp add: ok_def)
  have g: "generateDocument ''SELECT * FROM orders'' ''retail'' retail_response example_clock
      = Inr (projr (generateDocument ''SELECT * FROM orders'' ''retail'' retail_response example_clock))"
      "success (projr (generateDocument ''SELECT * FROM orders'' ''retail'' retail_response example_clock))"
    by (simp_all add: retail_response_def generateDocument_ok [OF k])
  show ?thesis
    unfolding retail_success_def
    using retail_document_file
    by (simp add: handleDownload_returned [OF g] retail_document_def [symmetric] HomePage_init_def
          generateDocument_fetch_def)
qed

text \<open>
  The retail scenario, redownloaded twice: three copies of the same report in all, one
  call; the same state with the form's fields kept is reached through the page's views.
\<close>

theorem redownload_network_free_witness:
  "showSuccess retail_success \<and> \<not> isLoading retail_success
   \<and> lastDocument retail_success = Some retail_document
   \<and> performDownload HomePage_init retail_document example_download_clock
       = Inr (HomePage_init\<lparr>downloads := [retail_file]\<rparr>)
   \<and> redownloads retail_success [example_download_clock, example_download_clock]
       = Inr (retail_success\<lparr>downloads := [retail_file, retail_file, retail_file]\<rparr>)
   \<and> fetches (retail_success\<lparr>downloads := [retail_file, retail_file, retail_file]\<rparr>)
       = [\<lparr>script = ''SELECT * FROM orders'', business = ''retail''\<rparr>]
   \<and> shell (retail_success\<lparr>sqlQuery := ''SELECT * FROM orders'', businessDomain := ''retail''\<rparr>)
   \<and> showSuccess (retail_success\<lparr>sqlQuery := ''SELECT * FROM orders'', businessDomain := ''retail''\<rparr>)
   \<and> lastDocument (retail_success\<lparr>sqlQuery := ''SELECT * FROM orders'', businessDomain := ''retail''\<rparr>)
       = Some retail_document
   \<and> \<not> showSuccess (handleDownload_call HomePage_init ''SELECT * FROM orders'' ''retail'')
   \<and> handleDownload_settle (handleDownload_call HomePage_init ''SELECT * FROM orders'' ''retail'')
         ''SELECT * FROM orders'' ''retail'' retail_response example_clock example_download_clock
       = retail_success"
proof -
  have st: "\<not> showSuccess (handleDownload_call HomePage_init ''SELECT * FROM orders'' ''retail'')"
    "handleDownload_settle (handleDownload_call HomePage_init ''SELECT * FROM orders'' ''retail'')
         ''SELECT * FROM orders'' ''retail'' retail_response example_clock example_download_clock
       = retail_success"
    by (simp_all add: handleDownload_call_def HomePage_init_def retail_success_def handleDownload_def)
  let ?cs = "[example_download_clock, example_download_clock]"
  let ?u = "retail_success\<lparr>sqlQuery := ''SELECT * FROM orders'', businessDomain := ''retail''\<rparr>"
  have a: "showSuccess retail_success" "\<not> isLoading retail_success"
    "lastDocument retail_success = Some retail_document"
    "downloads retail_success = [retail_file]"
    "fetches retail_success = [\<lparr>script = ''SELECT * FROM orders'', business = ''retail''\<rparr>]"
    by (simp_all add: retail_success_eq HomePage_init_def)
  have p: "performDownload HomePage_init retail_document example_download_clock
       = Inr (HomePage_init\<lparr>downloads := [retail_file]\<rparr>)"
    by (simp add: performDownload_eq retail_document_file HomePage_init_def)
  have sh: "shell ?u"
  proof -
    have 1: "shell (HomePage_init\<lparr>sqlQuery := ''SELECT * FROM orders''\<rparr>)"
      by (rule shell.type_query [OF shell.init]) (simp add: render_def HomePage_init_def)
    have 2: "shell (HomePage_init\<lparr>sqlQuery := ''SELECT * FROM orders'', businessDomain := ''retail''\<rparr>)"
      using shell.select_domain [OF 1, of "''retail''"]
      by (simp add: render_def HomePage_init_def isQueryEmpty_def menu_values_def businessDomains_def
            trim_def is_space_def)
    have 3: "shell (QueryForm_handleDownload
        (HomePage_init\<lparr>sqlQuery := ''SELECT * FROM orders'', businessDomain := ''retail''\<rparr>))"
      by (rule shell.click_download [OF 2]) (simp add: render_def HomePage_init_def)
    have 4: "QueryForm_handleDownload
        (HomePage_init\<lparr>sqlQuery := ''SELECT * FROM orders'', businessDomain := ''retail''\<rparr>)
       = handleDownload_call (HomePage_init\<lparr>sqlQuery := ''SELECT * FROM orders'', businessDomain := ''retail''\<rparr>)
           ''SELECT * FROM orders'' ''retail''"
      by (simp add: QueryForm_handleDownload_def isFormValid_def isQueryEmpty_def trim_def is_space_def)
    have 5: "shell (handleDownload (HomePage_init\<lparr>sqlQuery := ''SELECT * FROM orders'', businessDomain := ''retail''\<rparr>)
           ''SELECT * FROM orders'' ''retail'' retail_response example_clock example_download_clock)"
      unfolding handleDownload_def
      using shell.settle [OF 3, of "\<lparr>script = ''SELECT * FROM orders'', business = ''retail''\<rparr>"
          retail_response example_clock example_download_clock]
      by (simp add: 4 handleDownload_call_def generateDocument_fetch_def)
    have k: "ok 200" by (simp add: ok_def)
    have g: "generateDocument ''SELECT * FROM orders'' ''retail'' retail_response example_clock
        = Inr (projr (generateDocument ''SELECT * FROM orders'' ''retail'' retail_response example_clock))"
        "success (projr (generateDocument ''SELECT * FROM orders'' ''retail'' retail_response example_clock))"
      by (simp_all add: retail_response_def generateDocument_ok [OF k])
    have 6: "handleDownload (HomePage_init\<lparr>sqlQuery := ''SELECT * FROM orders'', businessDomain := ''retail''\<rparr>)
           ''SELECT * FROM orders'' ''retail'' retail_response example_clock example_download_clock
        = retail_success\<lparr>sqlQuery := ''SELECT * FROM orders'', businessDomain := ''retail''\<rparr>"
      using retail_document_file
      by (simp add: handleDownload_returned [OF g] retail_document_def [symmetric] retail_success_eq
            HomePage_init_def generateDocument_fetch_def)
    show ?thesis using 5 6 by simp
  qed
  note t = redownload_network_free [of retail_success retail_document HomePage_init
      example_download_clock "HomePage_init\<lparr>downloads := [retail_file]\<rparr>" ?cs ?u
      "handleDownload_call HomePage_init ''SELECT * FROM orders'' ''retail''"
      "''SELECT * FROM orders''" "''retail''" retail_response example_clock
      example_download_clock]
  obtain b i q n w' where r:
      "to_string (field retail_document ''businessDomain'') = Inr b"
      "to_string (field retail_document ''documentId'') = Inr i"
      "to_string (field retail_document ''sqlQuery'') = Inr q"
      "truthy (field retail_document ''fileName'') \<longrightarrow> to_string (field retail_document ''fileName'') = Inr n"
      "redownloads retail_success ?cs = Inr w'"
      "w' = retail_success\<lparr>downloads := downloads retail_success @
            map (\<lambda>c.
              \<lparr>content =
                  nl @ ''AnalyzeAI ANALYSIS REPORT'' @ nl
                  @ ''====================='' @ nl
                  @ nl
                  @ ''Business Domain: '' @ b @ nl
                  @ ''Generated: '' @ content_iso c @ nl
                  @ ''Document ID: '' @ i @ nl
                  @ nl
                  @ ''SQL Query Analysis:'' @ nl
                  @ q @ nl
                  @ nl
                  @ ''[This is a mock document. In production, this would contain the actual analysis.]'' @ nl
                  @ ''    '',
               filename =
                  (if truthy (field retail_document ''fileName'') then n
                   else b @ ''_analysis_''
                        @ map (\<lambda>x. if x = CHR '':'' \<or> x = CHR ''.'' then CHR ''-'' else x) (filename_iso c)
                        @ ''.doc''),
               contentType = ''text/plain''\<rparr>) ?cs\<rparr>"
    using t a(1,2,3) p by blast
  have v: "b = ''retail''" "i = ''DOC-1''" "q = ''SELECT * FROM orders''"
      "n = ''retail_analysis_2024-01-01.pdf''"
    using r(1,2,3,4) by (simp_all add: retail_document_fields)
  have "w' = retail_success\<lparr>downloads := [retail_file, retail_file, retail_file]\<rparr>"
    unfolding r(6) v
    by (simp add: a(4) retail_document_fields retail_file_def example_download_clock_def)
  then show ?thesis
    using a p sh r(5) st by simp
qed

text \<open>
  C10. When the submission fails, the query, the domain, the success flag, the cached
  document and the delivered files are what they were before \<^verbatim>\<open>handleDownload\<close> ran.
\<close>

theorem failed_submit_keeps_state:
  assumes "generateDocument query domain response clk = Inl err"
  shows "sqlQuery (handleDownload w query domain response clk dclk) = sqlQuery w
       \<and> businessDomain (handleDownload w query domain response clk dclk) = businessDomain w
       \<and> showSuccess (handleDownload w query domain response clk dclk) = showSuccess w
       \<and> lastDocument (handleDownload w query domain response clk dclk) = lastDocument w
       \<and> downloads (handleDownload w query domain response clk dclk) = downloads w"
  by (simp add: handleDownload_failure [OF assms])

text \<open>A failed submit from the retail success state keeps the cached document.\<close>

theorem failed_submit_keeps_state_witness:
  "generateDocument ''SELECT 2'' ''sales'' timeout_response example_clock = Inl (Error ''upstream timeout'')
   \<and> sqlQuery (handleDownload retail_success ''SELECT 2'' ''sales'' timeout_response example_clock
        example_download_clock) = []
   \<and> showSuccess (handleDownload retail_success ''SELECT 2'' ''sales'' timeout_response example_clock
        example_download_clock)
   \<and> lastDocument (handleDownload retail_success ''SELECT 2'' ''sales'' timeout_response example_clock
        example_download_clock) = lastDocument retail_success
   \<and> length (downloads (handleDownload retail_success ''SELECT 2'' ''sales'' timeout_response example_clock
        example_download_clock)) = 1"
proof -
  have g: "generateDocument ''SELECT 2'' ''sales'' timeout_response example_clock
             = Inl (Error ''upstream timeout'')"
    by (rule generateDocument_timeout)
  show ?thesis
    using failed_submit_keeps_state [OF g, of retail_success example_download_clock] g
    by (simp add: retail_success_eq HomePage_init_def)
qed

section \<open>Properties of the auth controller\<close>

text \<open>
  C4. Whatever the state before, when the status probe is answered with 401 the user in
  memory is \<^verbatim>\<open>null\<close>, so \<^verbatim>\<open>isAuthenticated\<close> is false, the stored snapshot is removed,
  and the loading flag is off.
\<close>

theorem probe_401_clears_identity:
  "isAuthenticated (checkAuthStatus_settle w (Response 401 b)) = False
   \<and> user (checkAuthStatus_settle w (Response 401 b)) = Null
   \<and> localStorage (checkAuthStatus_settle w (Response 401 b)) ''user'' = None
   \<and> loading (checkAuthStatus_settle w (Response 401 b)) = False"
  by (simp add: checkAuthStatus_settle_def isAuthenticated_def ok_def)

text \<open>A logged-in page with a stored snapshot, probed with a 401.\<close>

theorem probe_401_clears_identity_witness:
  "isAuthenticated logged_in_example
   \<and> localStorage logged_in_example ''user'' = Some (Text_json (Obj alice_identity))
   \<and> isAuthenticated (checkAuthStatus_settle logged_in_example (Response 401 (Malformed ''Unauthorized''))) = False
   \<and> localStorage (checkAuthStatus_settle logged_in_example (Response 401 (Malformed ''Unauthorized''))) ''user'' = None"
  using probe_401_clears_identity [of logged_in_example "Malformed ''Unauthorized''"]
  by (simp add: logged_in_example_def isAuthenticated_def)

text \<open>
  C3 fails on the code: with a stored text that is not JSON, \<^verbatim>\<open>JSON.parse\<close> throws in the
  effect and nothing catches it; the hydration does not treat the text as absent, and
  the effect ends before the callback exchange and the status probe are started.
\<close>

theorem hydrate_malformed_throws:
  "useEffect (AuthProvider_init callback_location [''user'' \<mapsto> Text_other ''{oops''])
     = Inl (SyntaxError ''Unexpected token in JSON: {oops'')
   \<and> hydrate (AuthProvider_init callback_location [''user'' \<mapsto> Text_other ''{oops''])
     = Inl (SyntaxError ''Unexpected token in JSON: {oops'')"
  by (simp add: useEffect_def hydrate_def AuthProvider_init_def JSON_parse_def)



























end
